theory Spec2Isabelle
  imports Complex_Main
begin

section \<open>Floating-point values and the library routines the pricer calls\<close>

text \<open>
  The program computes with double-precision floats. The model computes with the real
  numbers: rounding, overflow and underflow are left out. What it keeps of floating
  point are the operations that leave the real domain. numpy does not raise there: it
  returns an infinity or a NaN and signals a floating-point error (a RuntimeWarning),
  and later arithmetic goes on with that value. A float of the model is therefore
  either a real number, \<open>Inr x\<close>, or \<open>Inl e\<close>: the computation of this value signalled
  \<open>e\<close> (the first signal, in the order of evaluation) and its value, an infinity, a
  NaN or a number derived from one, is not tracked.
\<close>

datatype fp_signal = DivideByZero | InvalidValue

type_synonym npfloat = "fp_signal + real"

text \<open>Exceptions of the interpreter, which end the running function.\<close>

datatype py_error = ZeroDivisionError | IndexError | AttributeError

text \<open>Arithmetic that cannot signal: a signal of an operand is passed on, left operand first.\<close>

definition fl_lift :: "(real \<Rightarrow> real) \<Rightarrow> npfloat \<Rightarrow> npfloat" where
  "fl_lift f x = (case x of Inl e \<Rightarrow> Inl e | Inr a \<Rightarrow> Inr (f a))"

definition fl_lift2 :: "(real \<Rightarrow> real \<Rightarrow> real) \<Rightarrow> npfloat \<Rightarrow> npfloat \<Rightarrow> npfloat" where
  "fl_lift2 f x y =
     (case x of Inl e \<Rightarrow> Inl e
      | Inr a \<Rightarrow> (case y of Inl e \<Rightarrow> Inl e | Inr b \<Rightarrow> Inr (f a b)))"

definition fl_add :: "npfloat \<Rightarrow> npfloat \<Rightarrow> npfloat" where
  "fl_add = fl_lift2 (\<lambda>a b. a + b)"

definition fl_sub :: "npfloat \<Rightarrow> npfloat \<Rightarrow> npfloat" where
  "fl_sub = fl_lift2 (\<lambda>a b. a - b)"

definition fl_mul :: "npfloat \<Rightarrow> npfloat \<Rightarrow> npfloat" where
  "fl_mul = fl_lift2 (\<lambda>a b. a * b)"

definition fl_neg :: "npfloat \<Rightarrow> npfloat" where
  "fl_neg = fl_lift (\<lambda>a. - a)"

text \<open>
  Division of numpy scalars: \<open>x / 0\<close> is an infinity with the signal "divide by zero",
  \<open>0 / 0\<close> is NaN with the signal "invalid value".
\<close>

definition fl_divide :: "npfloat \<Rightarrow> npfloat \<Rightarrow> npfloat" where
  "fl_divide x y =
     (case x of Inl e \<Rightarrow> Inl e
      | Inr a \<Rightarrow>
          (case y of Inl e \<Rightarrow> Inl e
           | Inr b \<Rightarrow>
               if b = 0 then Inl (if a = 0 then InvalidValue else DivideByZero)
               else Inr (a / b)))"

text \<open>
  \<open>np.log\<close>: NaN and "invalid value" below zero, minus infinity and "divide by zero" at
  zero. \<open>np.sqrt\<close>: NaN and "invalid value" below zero.
\<close>

definition np_log :: "npfloat \<Rightarrow> npfloat" where
  "np_log x =
     (case x of Inl e \<Rightarrow> Inl e
      | Inr a \<Rightarrow>
          if a < 0 then Inl InvalidValue
          else if a = 0 then Inl DivideByZero
          else Inr (ln a))"

definition np_sqrt :: "npfloat \<Rightarrow> npfloat" where
  "np_sqrt x =
     (case x of Inl e \<Rightarrow> Inl e
      | Inr a \<Rightarrow> if a < 0 then Inl InvalidValue else Inr (sqrt a))"

text \<open>
  Division of two Python floats, \<open>S/K\<close> in \<open>calculate_prices\<close>: the interpreter raises
  ZeroDivisionError when the divisor is zero. (When one operand is a numpy scalar, as
  the spot prices of the surface are, numpy divides and signals instead of raising; the
  two agree wherever the divisor is not zero.)
\<close>

definition py_truediv :: "real \<Rightarrow> real \<Rightarrow> py_error + npfloat" where
  "py_truediv a b = (if b = 0 then Inl ZeroDivisionError else Inr (Inr (a / b)))"

text \<open>
  Modelled from the spec: \<open>scipy.stats.norm.cdf\<close>, which is not part of the repository.
  The spec calls it \<open>\<Phi>\<close>, the standard normal cumulative distribution function:
  \<open>\<Phi> x = 1/2 + (1 / sqrt (2 \<pi>)) \<integral>\<^sub>0\<^sup>x exp (- t\<^sup>2 / 2) dt\<close>. It is given here by the
  Maclaurin series of that integral, which converges for every \<open>x\<close>.
\<close>

definition Phi_term :: "real \<Rightarrow> nat \<Rightarrow> real" where
  "Phi_term x n = (- 1) ^ n * x ^ (2 * n + 1) / (2 ^ n * fact n * real (2 * n + 1))"

definition Phi :: "real \<Rightarrow> real" where
  "Phi x = 1 / 2 + (\<Sum>n. Phi_term x n) / sqrt (2 * pi)"

definition norm_cdf :: "npfloat \<Rightarrow> npfloat" where
  "norm_cdf = fl_lift Phi"

section \<open>The pricer: class BlackScholes\<close>

text \<open>
  An instance holds the five contract parameters; \<open>call_price\<close> and \<open>put_price\<close> are
  attributes that exist only once \<open>calculate_prices\<close> has run (\<open>None\<close> before).
\<close>

record BlackScholes =
  time_to_maturity :: real
  strike :: real
  current_price :: real
  volatility :: real
  risk_free_rate :: real
  call_price :: "npfloat option"
  put_price :: "npfloat option"

text \<open>
  The module-level variables that the three functions read: the sidebar inputs. Those
  that share a name with an attribute of the class carry the prefix \<open>global_\<close>.
\<close>

record module_vars =
  global_current_price :: real
  global_strike :: real
  global_volatility :: real
  global_risk_free_rate :: real
  market_call_quote :: real
  market_put_quote :: real
  amount_brought :: int
  time_steps :: int

text \<open>The values the sidebar inputs start with (lines 100 to 128).\<close>

definition sidebar_defaults :: module_vars where
  "sidebar_defaults =
     \<lparr>global_current_price = 100, global_strike = 100, global_volatility = 3 / 10,
      global_risk_free_rate = 1 / 20, market_call_quote = 141 / 10, market_put_quote = 46 / 5,
      amount_brought = 100, time_steps = 252\<rparr>"

definition BlackScholes_init :: "real \<Rightarrow> real \<Rightarrow> real \<Rightarrow> real \<Rightarrow> real \<Rightarrow> BlackScholes" where
  "BlackScholes_init t K S sigma r =
     \<lparr>time_to_maturity = t, strike = K, current_price = S, volatility = sigma,
      risk_free_rate = r, call_price = None, put_price = None\<rparr>"

text \<open>
  \<open>calculate_prices\<close>, line by line. \<open>d1\<close> and \<open>d2\<close> use \<open>K\<close>, the instance's strike. The
  two price lines name \<open>strike\<close>, which is no local variable of the method and no
  attribute access: it is the module-level variable \<open>strike\<close>, here \<open>global_strike g\<close>.
  The method stores both prices in the instance and returns them.
\<close>

definition calculate_prices ::
  "module_vars \<Rightarrow> BlackScholes \<Rightarrow> py_error + (BlackScholes \<times> npfloat \<times> npfloat)" where
  "calculate_prices g self =
     (let t = time_to_maturity self;
          K = strike self;
          S = current_price self;
          sigma = volatility self;
          r = risk_free_rate self
      in case py_truediv S K of
           Inl err \<Rightarrow> Inl err
         | Inr q \<Rightarrow>
             (let d1 = fl_divide (fl_add (np_log q) (Inr ((r + sigma\<^sup>2 / 2) * t)))
                                 (fl_mul (Inr sigma) (np_sqrt (Inr t)));
                  d2 = fl_sub d1 (fl_mul (Inr sigma) (np_sqrt (Inr t)));
                  call = fl_sub (fl_mul (Inr S) (norm_cdf d1))
                                (fl_mul (Inr (global_strike g * exp (- (r * t)))) (norm_cdf d2));
                  put = fl_sub (fl_mul (Inr (global_strike g * exp (- (r * t)))) (norm_cdf (fl_neg d2)))
                               (fl_mul (Inr S) (norm_cdf (fl_neg d1)))
              in Inr (self\<lparr>call_price := Some call, put_price := Some put\<rparr>, call, put)))"

text \<open>
  The closed form of the spec (section 4.1), written in the contract's own strike \<open>K\<close>
  throughout. These four definitions follow the spec's words; the pricer above is
  compared with them.
\<close>

definition spec_d1 :: "real \<Rightarrow> real \<Rightarrow> real \<Rightarrow> real \<Rightarrow> real \<Rightarrow> real" where
  "spec_d1 t K S sigma r = (ln (S / K) + (r + sigma\<^sup>2 / 2) * t) / (sigma * sqrt t)"

definition spec_d2 :: "real \<Rightarrow> real \<Rightarrow> real \<Rightarrow> real \<Rightarrow> real \<Rightarrow> real" where
  "spec_d2 t K S sigma r = spec_d1 t K S sigma r - sigma * sqrt t"

definition spec_call :: "real \<Rightarrow> real \<Rightarrow> real \<Rightarrow> real \<Rightarrow> real \<Rightarrow> real" where
  "spec_call t K S sigma r =
     S * Phi (spec_d1 t K S sigma r) - K * exp (- (r * t)) * Phi (spec_d2 t K S sigma r)"

definition spec_put :: "real \<Rightarrow> real \<Rightarrow> real \<Rightarrow> real \<Rightarrow> real \<Rightarrow> real" where
  "spec_put t K S sigma r =
     K * exp (- (r * t)) * Phi (- spec_d2 t K S sigma r) - S * Phi (- spec_d1 t K S sigma r)"

section \<open>The surface generator: plot_heatmap, lines 132 to 148\<close>

text \<open>
  A two-dimensional numpy array: its shape and its cells in row-major order. The shape
  is kept apart from the cells, since an array of shape \<open>(0, n)\<close> has no cell and
  still \<open>n\<close> columns. Writing outside the shape raises IndexError.
\<close>

record ndarray =
  nrows :: nat
  ncols :: nat
  cells :: "npfloat list"

definition np_zeros :: "nat \<Rightarrow> nat \<Rightarrow> ndarray" where
  "np_zeros n m = \<lparr>nrows = n, ncols = m, cells = replicate (n * m) (Inr 0)\<rparr>"

definition nd_shape :: "ndarray \<Rightarrow> nat \<times> nat" where
  "nd_shape a = (nrows a, ncols a)"

definition nd_get :: "ndarray \<Rightarrow> nat \<Rightarrow> nat \<Rightarrow> npfloat" where
  "nd_get a i j = cells a ! (i * ncols a + j)"

definition nd_set :: "ndarray \<Rightarrow> nat \<Rightarrow> nat \<Rightarrow> npfloat \<Rightarrow> py_error + ndarray" where
  "nd_set a i j v =
     (if i < nrows a \<and> j < ncols a
      then Inr (a\<lparr>cells := (cells a)[i * ncols a + j := v]\<rparr>)
      else Inl IndexError)"

text \<open>
  The inner loop, over \<open>enumerate(spot_range)\<close> from column \<open>j\<close> on, for row \<open>i\<close> and
  volatility \<open>vol\<close>. Each step builds the instance \<open>bs_temp\<close> (its strike is the
  function's argument \<open>strike\<close>, here \<open>strike_arg\<close>; time and rate come from \<open>bs_model\<close>),
  runs the pricer, and writes the stored prices less the market quotes, which are
  module-level variables.
\<close>

fun spot_loop ::
  "module_vars \<Rightarrow> BlackScholes \<Rightarrow> real \<Rightarrow> nat \<Rightarrow> real \<Rightarrow> nat \<Rightarrow> real list
     \<Rightarrow> ndarray \<times> ndarray \<Rightarrow> py_error + (ndarray \<times> ndarray)" where
  "spot_loop g bs_model strike_arg i vol j [] (call_prices, put_prices) =
     Inr (call_prices, put_prices)"
| "spot_loop g bs_model strike_arg i vol j (spot # spots) (call_prices, put_prices) =
     (case calculate_prices g
             (BlackScholes_init (time_to_maturity bs_model) strike_arg spot vol
                (risk_free_rate bs_model)) of
        Inl err \<Rightarrow> Inl err
      | Inr (bs_temp, _) \<Rightarrow>
          (case call_price bs_temp of
             None \<Rightarrow> Inl AttributeError
           | Some c \<Rightarrow>
               (case nd_set call_prices i j (fl_sub c (Inr (market_call_quote g))) of
                  Inl err \<Rightarrow> Inl err
                | Inr call_prices' \<Rightarrow>
                    (case put_price bs_temp of
                       None \<Rightarrow> Inl AttributeError
                     | Some p \<Rightarrow>
                         (case nd_set put_prices i j (fl_sub p (Inr (market_put_quote g))) of
                            Inl err \<Rightarrow> Inl err
                          | Inr put_prices' \<Rightarrow>
                              spot_loop g bs_model strike_arg i vol (Suc j) spots
                                (call_prices', put_prices'))))))"

text \<open>The outer loop, over \<open>enumerate(vol_range)\<close> from row \<open>i\<close> on.\<close>

fun vol_loop ::
  "module_vars \<Rightarrow> BlackScholes \<Rightarrow> real \<Rightarrow> real list \<Rightarrow> nat \<Rightarrow> real list
     \<Rightarrow> ndarray \<times> ndarray \<Rightarrow> py_error + (ndarray \<times> ndarray)" where
  "vol_loop g bs_model strike_arg spot_range i [] acc = Inr acc"
| "vol_loop g bs_model strike_arg spot_range i (vol # vols) acc =
     (case spot_loop g bs_model strike_arg i vol 0 spot_range acc of
        Inl err \<Rightarrow> Inl err
      | Inr acc' \<Rightarrow> vol_loop g bs_model strike_arg spot_range (Suc i) vols acc')"

text \<open>
  \<open>plot_heatmap\<close> up to the end of its loops: the two matrices \<open>call_prices\<close> and
  \<open>put_prices\<close>. The drawing that follows (matplotlib and seaborn) is not modelled.
\<close>

definition plot_heatmap ::
  "module_vars \<Rightarrow> BlackScholes \<Rightarrow> real list \<Rightarrow> real list \<Rightarrow> real
     \<Rightarrow> py_error + (ndarray \<times> ndarray)" where
  "plot_heatmap g bs_model spot_range vol_range strike_arg =
     vol_loop g bs_model strike_arg spot_range 0 vol_range
       (np_zeros (length vol_range) (length spot_range),
        np_zeros (length vol_range) (length spot_range))"

text \<open>
  The two values that one run of the loop body writes: the pricer's call and put for
  this volatility and spot, each less its market quote. Where the pricer raises no value
  is written; the lemmas use \<open>cell_quotes\<close> only for a strike other than zero, where the
  pricer returns.
\<close>

definition cell_quotes :: "module_vars \<Rightarrow> BlackScholes \<Rightarrow> real \<Rightarrow> real \<Rightarrow> real \<Rightarrow> npfloat \<times> npfloat" where
  "cell_quotes g bs_model strike_arg vol spot =
     (case calculate_prices g
             (BlackScholes_init (time_to_maturity bs_model) strike_arg spot vol
                (risk_free_rate bs_model)) of
        Inl err \<Rightarrow> (Inl InvalidValue, Inl InvalidValue)
      | Inr (bs_temp, c, p) \<Rightarrow>
          (fl_sub c (Inr (market_call_quote g)), fl_sub p (Inr (market_put_quote g))))"

section \<open>The equity simulator: plot_account_equity, lines 172 to 182\<close>

text \<open>
  \<open>qf.simulations.GeometricBrownianMotion(S, mu, sigma, dt, T)\<close> draws a random path; it
  belongs to the library qfin, not to the repository. The source of randomness is a
  parameter of the model: \<open>sampler k S mu sigma dt T\<close> is the \<open>simulated_path\<close> of the
  object constructed in trial \<open>k\<close> of a run.
\<close>

type_synonym gbm_sampler = "nat \<Rightarrow> real \<Rightarrow> real \<Rightarrow> real \<Rightarrow> real \<Rightarrow> real \<Rightarrow> real list"

text \<open>Python's \<open>max(a, b)\<close> keeps \<open>a\<close> unless \<open>b\<close> is greater.\<close>

definition py_max :: "real \<Rightarrow> real \<Rightarrow> real" where
  "py_max a b = (if b > a then b else a)"

text \<open>
  Modelled from the spec: \<open>numpy.cumsum\<close>, which is not part of the repository: the
  cumulative-sum sequence, whose element \<open>k\<close> is the sum of the elements up to \<open>k\<close>,
  accumulated from the left.
\<close>

fun cumsum_from :: "real \<Rightarrow> real list \<Rightarrow> real list" where
  "cumsum_from acc [] = []"
| "cumsum_from acc (x # xs) = (acc + x) # cumsum_from (acc + x) xs"

definition np_cumsum :: "real list \<Rightarrow> real list" where
  "np_cumsum xs = cumsum_from 0 xs"

text \<open>
  The trial loop, over the remaining values of \<open>range(num_iterations)\<close>. \<open>1/time_steps\<close>
  divides two Python integers and raises ZeroDivisionError at zero;
  \<open>simulated_path[-1]\<close> raises IndexError on an empty path. The payoff is measured
  against the module-level \<open>current_price\<close>.
\<close>

fun trial_loop ::
  "module_vars \<Rightarrow> gbm_sampler \<Rightarrow> BlackScholes \<Rightarrow> real \<Rightarrow> nat list \<Rightarrow> real list
     \<Rightarrow> py_error + real list" where
  "trial_loop g sampler bs_model premium [] pls = Inr pls"
| "trial_loop g sampler bs_model premium (i # rest) pls =
     (if time_steps g = 0 then Inl ZeroDivisionError
      else
        (let path = sampler i (global_current_price g) (global_risk_free_rate g)
                      (global_volatility g) (1 / real_of_int (time_steps g))
                      (time_to_maturity bs_model)
         in if path = [] then Inl IndexError
            else trial_loop g sampler bs_model premium rest
                   (pls @ [py_max (last path - global_current_price g) 0
                             * real_of_int (amount_brought g) - premium])))"

text \<open>
  \<open>plot_account_equity\<close> up to \<open>np.cumsum(pls)\<close>: the instance after the pricer has run
  on it, and the equity path. The drawing is not modelled.
\<close>

definition plot_account_equity ::
  "module_vars \<Rightarrow> gbm_sampler \<Rightarrow> BlackScholes \<Rightarrow> int \<Rightarrow> py_error + (BlackScholes \<times> real list)" where
  "plot_account_equity g sampler bs_model num_iterations =
     (case calculate_prices g bs_model of
        Inl err \<Rightarrow> Inl err
      | Inr (bs_model', expected_value, _) \<Rightarrow>
          (let premium = market_call_quote g * real_of_int (amount_brought g)
           in case trial_loop g sampler bs_model' premium [0..<nat num_iterations] [] of
                Inl err \<Rightarrow> Inl err
              | Inr pls \<Rightarrow> Inr (bs_model', np_cumsum pls)))"

text \<open>
  The per-trial payoff in the words of the spec (section 4.3), for a terminal price:
  \<open>max(terminal_price - current_price, 0) * position_size - premium\<close> with
  \<open>premium = market_call_quote * position_size\<close>.
\<close>

definition spec_payoff :: "module_vars \<Rightarrow> real \<Rightarrow> real" where
  "spec_payoff g terminal_price =
     max (terminal_price - global_current_price g) 0 * real_of_int (amount_brought g)
       - market_call_quote g * real_of_int (amount_brought g)"

text \<open>The terminal price drawn in trial \<open>k\<close>.\<close>

definition terminal_price :: "module_vars \<Rightarrow> gbm_sampler \<Rightarrow> BlackScholes \<Rightarrow> nat \<Rightarrow> real" where
  "terminal_price g sampler bs_model k =
     last (sampler k (global_current_price g) (global_risk_free_rate g) (global_volatility g)
             (1 / real_of_int (time_steps g)) (time_to_maturity bs_model))"

text \<open>The payoff that the loop body appends in trial \<open>k\<close>, as line 178 computes it.\<close>

definition code_payoff :: "module_vars \<Rightarrow> gbm_sampler \<Rightarrow> BlackScholes \<Rightarrow> nat \<Rightarrow> real" where
  "code_payoff g sampler bs_model k =
     py_max (terminal_price g sampler bs_model k - global_current_price g) 0
       * real_of_int (amount_brought g)
     - market_call_quote g * real_of_int (amount_brought g)"

section \<open>The standard normal distribution function\<close>

lemma Phi_term_bound: "norm (Phi_term x n) \<le> \<bar>x\<bar> * ((x\<^sup>2 / 2) ^ n / fact n)"
proof -
  have "norm (Phi_term x n) = \<bar>x\<bar> * ((x\<^sup>2 / 2) ^ n / fact n) / real (2 * n + 1)"
    by (simp add: Phi_term_def power_mult power_divide abs_mult power_abs)
  also have "\<dots> \<le> \<bar>x\<bar> * ((x\<^sup>2 / 2) ^ n / fact n) / 1"
    by (intro divide_left_mono) (auto intro!: mult_nonneg_nonneg divide_nonneg_pos)
  finally show ?thesis by simp
qed

lemma summable_Phi_term: "summable (Phi_term x)"
proof (rule summable_comparison_test')
  show "summable (\<lambda>n. \<bar>x\<bar> * ((x\<^sup>2 / 2) ^ n / fact n))"
    using summable_exp_generic [of "x\<^sup>2 / 2"]
    by (intro summable_mult) (simp add: field_simps)
  show "\<And>n. n \<ge> 0 \<Longrightarrow> norm (Phi_term x n) \<le> \<bar>x\<bar> * ((x\<^sup>2 / 2) ^ n / fact n)"
    by (rule Phi_term_bound)
qed

lemma Phi_term_minus: "Phi_term (- x) n = - Phi_term x n"
  by (simp add: Phi_term_def)

text \<open>The symmetry of the distribution: \<open>\<Phi> (- x) = 1 - \<Phi> x\<close>.\<close>

lemma Phi_symmetric: "Phi (- x) = 1 - Phi x"
proof -
  have "(\<Sum>n. Phi_term (- x) n) = - (\<Sum>n. Phi_term x n)"
    by (simp add: Phi_term_minus suminf_minus [OF summable_Phi_term])
  then show ?thesis by (simp add: Phi_def field_simps)
qed

lemma Phi_zero: "Phi 0 = 1 / 2"
  by (simp add: Phi_def Phi_term_def)

section \<open>What the pricer computes\<close>

lemmas fl_defs = fl_lift_def fl_lift2_def fl_add_def fl_sub_def fl_mul_def fl_neg_def
  fl_divide_def np_log_def np_sqrt_def norm_cdf_def py_truediv_def

lemma divide_pos_not_neg: "0 < (a::real) \<Longrightarrow> 0 < b \<Longrightarrow> \<not> a / b < 0 \<and> a / b \<noteq> 0"
  using divide_pos_pos [of a b] by linarith

text \<open>
  On a valid contract no operation signals, and the prices are the closed form with
  one difference: the discounted strike is the module-level \<open>strike\<close>.
\<close>

lemma calculate_prices_valid:
  assumes "0 < time_to_maturity self" "0 < strike self" "0 < current_price self"
    "0 < volatility self"
  shows "calculate_prices g self =
     (let d1 = spec_d1 (time_to_maturity self) (strike self) (current_price self)
                 (volatility self) (risk_free_rate self);
          d2 = spec_d2 (time_to_maturity self) (strike self) (current_price self)
                 (volatility self) (risk_free_rate self);
          disc = global_strike g * exp (- (risk_free_rate self * time_to_maturity self));
          c = current_price self * Phi d1 - disc * Phi d2;
          p = disc * Phi (- d2) - current_price self * Phi (- d1)
      in Inr (self\<lparr>call_price := Some (Inr c), put_price := Some (Inr p)\<rparr>, Inr c, Inr p))"
  using assms divide_pos_not_neg [of "current_price self" "strike self"]
  by (simp add: calculate_prices_def fl_defs Let_def spec_d1_def spec_d2_def)

text \<open>
  When the module-level \<open>strike\<close> equals the instance's, as it does at every call the
  application itself makes (lines 217, 273 and 278), the prices are the closed form.
\<close>

lemma calculate_prices_closed_form_when_strikes_agree:
  assumes "0 < time_to_maturity self" "0 < strike self" "0 < current_price self"
    "0 < volatility self" "global_strike g = strike self"
  shows "\<exists>s. calculate_prices g self =
     Inr (s,
          Inr (spec_call (time_to_maturity self) (strike self) (current_price self)
                 (volatility self) (risk_free_rate self)),
          Inr (spec_put (time_to_maturity self) (strike self) (current_price self)
                 (volatility self) (risk_free_rate self)))"
  unfolding calculate_prices_valid [OF assms(1-4)]
  by (simp add: Let_def spec_call_def spec_put_def assms(5))

lemma calculate_prices_shape:
  assumes "calculate_prices g self = Inr (s, Inr c, Inr p)"
  shows "\<exists>d1 d2.
           c = current_price self * Phi d1
                 - global_strike g * exp (- (risk_free_rate self * time_to_maturity self)) * Phi d2
         \<and> p = global_strike g * exp (- (risk_free_rate self * time_to_maturity self)) * Phi (- d2)
                 - current_price self * Phi (- d1)"
  using assms
  by (auto simp: calculate_prices_def fl_defs Let_def simp del: minus_diff_eq
      split: if_splits sum.splits)

text \<open>
  Put-call parity of the returned pair, whenever both prices are numbers: it holds with
  the module-level \<open>strike\<close> in the place of the contract's.
\<close>

lemma calculate_prices_parity:
  assumes "calculate_prices g self = Inr (s, Inr c, Inr p)"
  shows "c - p = current_price self
                  - global_strike g * exp (- (risk_free_rate self * time_to_maturity self))"
proof -
  from calculate_prices_shape [OF assms] obtain d1 d2 where
    c: "c = current_price self * Phi d1
            - global_strike g * exp (- (risk_free_rate self * time_to_maturity self)) * Phi d2"
    and p: "p = global_strike g * exp (- (risk_free_rate self * time_to_maturity self)) * Phi (- d2)
            - current_price self * Phi (- d1)"
    by blast
  show ?thesis
    unfolding c p Phi_symmetric by (simp add: algebra_simps)
qed

section \<open>The pricer against the closed form\<close>

text \<open>
  A contract with strike 100, spot 100, one year, volatility 1/5 and rate 1/50: there
  \<open>d1 = 1/5\<close> and \<open>d2 = 0\<close>, so that \<open>\<Phi> d2 = 1/2\<close>. The module-level \<open>strike\<close> is \<open>G\<close>.
\<close>

lemma spec_d1_example: "spec_d1 1 100 100 (1 / 5) (1 / 50) = 1 / 5"
  by (simp add: spec_d1_def power2_eq_square)

lemma spec_d2_example: "spec_d2 1 100 100 (1 / 5) (1 / 50) = 0"
  by (simp add: spec_d2_def spec_d1_example)

lemma calculate_prices_example:
  "calculate_prices (g\<lparr>global_strike := G\<rparr>) (BlackScholes_init 1 100 100 (1 / 5) (1 / 50)) =
     Inr ((BlackScholes_init 1 100 100 (1 / 5) (1 / 50))
            \<lparr>call_price := Some (Inr (100 * Phi (1 / 5) - G * exp (- (1 / 50)) / 2)),
             put_price := Some (Inr (G * exp (- (1 / 50)) / 2 - 100 * Phi (- (1 / 5))))\<rparr>,
          Inr (100 * Phi (1 / 5) - G * exp (- (1 / 50)) / 2),
          Inr (G * exp (- (1 / 50)) / 2 - 100 * Phi (- (1 / 5))))"
proof -
  let ?bs = "BlackScholes_init 1 100 100 (1 / 5) (1 / 50)"
  have v: "0 < time_to_maturity ?bs" "0 < strike ?bs" "0 < current_price ?bs" "0 < volatility ?bs"
    by (simp_all add: BlackScholes_init_def)
  have f: "time_to_maturity ?bs = 1" "strike ?bs = 100" "current_price ?bs = 100"
    "volatility ?bs = 1 / 5" "risk_free_rate ?bs = 1 / 50"
    by (simp_all add: BlackScholes_init_def)
  show ?thesis
    unfolding calculate_prices_valid [OF v] f spec_d1_example spec_d2_example Let_def
    by (simp add: Phi_zero)
qed

lemma exp_fiftieth_bound: "49 / 50 \<le> exp (- (1 / 50 :: real))"
  using exp_ge_add_one_self [of "- (1 / 50 :: real)"] by simp

text \<open>
  Claim C1: on a valid contract the pricer returns the closed form with \<open>K\<close> the strike of
  the contract it is called on. The code does not: with the module-level \<open>strike\<close> at 50
  and a contract of strike 100, the returned call exceeds the closed form by
  \<open>25 exp (- 1/50)\<close> and the returned put falls short of it by as much.
\<close>

theorem pricer_discounts_module_strike:
  "\<exists>s c p. calculate_prices (g\<lparr>global_strike := 50\<rparr>)
               (BlackScholes_init 1 100 100 (1 / 5) (1 / 50)) = Inr (s, Inr c, Inr p)
     \<and> c = spec_call 1 100 100 (1 / 5) (1 / 50) + 25 * exp (- (1 / 50))
     \<and> p = spec_put 1 100 100 (1 / 5) (1 / 50) - 25 * exp (- (1 / 50))
     \<and> c \<noteq> spec_call 1 100 100 (1 / 5) (1 / 50)
     \<and> p \<noteq> spec_put 1 100 100 (1 / 5) (1 / 50)"
  unfolding calculate_prices_example
  by (simp add: spec_call_def spec_put_def spec_d1_example spec_d2_example Phi_zero)

text \<open>
  Claim C2: put-call parity in the contract's own strike, to within \<open>10\<^sup>-\<^sup>9\<close>. At the
  same input the returned pair satisfies \<open>call - put = 100 - 50 exp (- 1/50)\<close>, which is
  parity in the module-level \<open>strike\<close>, and misses \<open>S - K exp (- r t)\<close> by more than the
  tolerance.
\<close>

theorem pricer_parity_off_by_strike:
  "\<exists>s c p. calculate_prices (g\<lparr>global_strike := 50\<rparr>)
               (BlackScholes_init 1 100 100 (1 / 5) (1 / 50)) = Inr (s, Inr c, Inr p)
     \<and> c - p = 100 - 50 * exp (- (1 / 50))
     \<and> \<bar>(c - p) - (100 - 100 * exp (- (1 / 50)))\<bar> > 1 / 10 ^ 9"
proof -
  let ?bs = "BlackScholes_init 1 100 100 (1 / 5) (1 / 50)"
  obtain s c p where r: "calculate_prices (g\<lparr>global_strike := 50\<rparr>) ?bs = Inr (s, Inr c, Inr p)"
    unfolding calculate_prices_example by blast
  have par: "c - p = 100 - 50 * exp (- (1 / 50))"
    using calculate_prices_parity [OF r] by (simp add: BlackScholes_init_def)
  have "\<bar>(c - p) - (100 - 100 * exp (- (1 / 50)))\<bar> = 50 * exp (- (1 / 50))"
    unfolding par by simp
  also have "\<dots> > 1 / 10 ^ 9"
    using exp_fiftieth_bound by simp
  finally show ?thesis using r par by blast
qed

section \<open>Degenerate inputs, stored prices, purity\<close>

text \<open>
  Claim C5: with a time to maturity of zero or a volatility of zero, and strike and spot
  valid, the pricer has no guard: the divisor \<open>sigma * sqrt t\<close> of \<open>d1\<close> is zero, the
  division signals ("invalid value" when the numerator is zero too, "divide by zero"
  otherwise), and the signal reaches the caller in both returned prices and in both
  stored attributes.
\<close>

theorem pricer_degenerate_signals:
  assumes "time_to_maturity self = 0 \<or> volatility self = 0"
    and "0 \<le> time_to_maturity self" and "0 < strike self" and "0 < current_price self"
  shows "volatility self * sqrt (time_to_maturity self) = 0
     \<and> (\<exists>e. e = (if ln (current_price self / strike self)
                         + (risk_free_rate self + (volatility self)\<^sup>2 / 2) * time_to_maturity self = 0
                    then InvalidValue else DivideByZero)
            \<and> calculate_prices g self =
                Inr (self\<lparr>call_price := Some (Inl e), put_price := Some (Inl e)\<rparr>, Inl e, Inl e))"
proof -
  have z: "volatility self * sqrt (time_to_maturity self) = 0"
    using assms(1) by auto
  have q: "\<not> current_price self / strike self < 0 \<and> current_price self / strike self \<noteq> 0"
    using divide_pos_not_neg [OF assms(4) assms(3)] .
  have k: "strike self \<noteq> 0" using assms(3) by simp
  show ?thesis
    using z q k assms(2)
    by (simp add: calculate_prices_def fl_defs Let_def)
qed

theorem pricer_degenerate_signals_witness:
  "volatility (BlackScholes_init 1 100 100 0 (1 / 20))
     * sqrt (time_to_maturity (BlackScholes_init 1 100 100 0 (1 / 20))) = 0
   \<and> calculate_prices sidebar_defaults (BlackScholes_init 1 100 100 0 (1 / 20)) =
       Inr ((BlackScholes_init 1 100 100 0 (1 / 20))
              \<lparr>call_price := Some (Inl DivideByZero), put_price := Some (Inl DivideByZero)\<rparr>,
            Inl DivideByZero, Inl DivideByZero)"
  using pricer_degenerate_signals [of "BlackScholes_init 1 100 100 0 (1 / 20)" sidebar_defaults]
  by (simp add: BlackScholes_init_def)

text \<open>
  Claim C9: whenever \<open>calculate_prices\<close> returns the pair \<open>(c, p)\<close>, the instance's
  \<open>call_price\<close> is \<open>c\<close> and its \<open>put_price\<close> is \<open>p\<close>.
\<close>

theorem stored_prices_are_returned:
  assumes "calculate_prices g self = Inr (self', c, p)"
  shows "call_price self' = Some c \<and> put_price self' = Some p"
  using assms
  by (auto simp: calculate_prices_def Let_def split: sum.splits)

theorem stored_prices_are_returned_witness:
  "calculate_prices sidebar_defaults (BlackScholes_init 1 100 100 (1 / 5) (1 / 50)) =
     Inr ((BlackScholes_init 1 100 100 (1 / 5) (1 / 50))
            \<lparr>call_price := Some (Inr (100 * Phi (1 / 5) - 100 * exp (- (1 / 50)) / 2)),
             put_price := Some (Inr (100 * exp (- (1 / 50)) / 2 - 100 * Phi (- (1 / 5))))\<rparr>,
          Inr (100 * Phi (1 / 5) - 100 * exp (- (1 / 50)) / 2),
          Inr (100 * exp (- (1 / 50)) / 2 - 100 * Phi (- (1 / 5))))
   \<and> call_price ((BlackScholes_init 1 100 100 (1 / 5) (1 / 50))
            \<lparr>call_price := Some (Inr (100 * Phi (1 / 5) - 100 * exp (- (1 / 50)) / 2)),
             put_price := Some (Inr (100 * exp (- (1 / 50)) / 2 - 100 * Phi (- (1 / 5))))\<rparr>)
       = Some (Inr (100 * Phi (1 / 5) - 100 * exp (- (1 / 50)) / 2))
   \<and> put_price ((BlackScholes_init 1 100 100 (1 / 5) (1 / 50))
            \<lparr>call_price := Some (Inr (100 * Phi (1 / 5) - 100 * exp (- (1 / 50)) / 2)),
             put_price := Some (Inr (100 * exp (- (1 / 50)) / 2 - 100 * Phi (- (1 / 5))))\<rparr>)
       = Some (Inr (100 * exp (- (1 / 50)) / 2 - 100 * Phi (- (1 / 5))))"
proof -
  have e: "calculate_prices sidebar_defaults (BlackScholes_init 1 100 100 (1 / 5) (1 / 50)) =
     Inr ((BlackScholes_init 1 100 100 (1 / 5) (1 / 50))
            \<lparr>call_price := Some (Inr (100 * Phi (1 / 5) - 100 * exp (- (1 / 50)) / 2)),
             put_price := Some (Inr (100 * exp (- (1 / 50)) / 2 - 100 * Phi (- (1 / 5))))\<rparr>,
          Inr (100 * Phi (1 / 5) - 100 * exp (- (1 / 50)) / 2),
          Inr (100 * exp (- (1 / 50)) / 2 - 100 * Phi (- (1 / 5))))"
    using calculate_prices_example [where g = sidebar_defaults and G = 100]
    by (simp add: sidebar_defaults_def)
  show ?thesis
    using e stored_prices_are_returned [OF e] by simp
qed

text \<open>
  Claim C6 says that the pricer is free of side effects. It is not: the call changes the
  instance it runs on, which afterwards holds the two prices.
\<close>

theorem pricer_mutates_instance_counterexample:
  "\<exists>s c p. calculate_prices sidebar_defaults (BlackScholes_init 1 100 100 (1 / 5) (1 / 50))
              = Inr (s, c, p)
     \<and> s \<noteq> BlackScholes_init 1 100 100 (1 / 5) (1 / 50)"
proof -
  have "calculate_prices (sidebar_defaults\<lparr>global_strike := 100\<rparr>)
          (BlackScholes_init 1 100 100 (1 / 5) (1 / 50)) =
     Inr ((BlackScholes_init 1 100 100 (1 / 5) (1 / 50))
            \<lparr>call_price := Some (Inr (100 * Phi (1 / 5) - 100 * exp (- (1 / 50)) / 2)),
             put_price := Some (Inr (100 * exp (- (1 / 50)) / 2 - 100 * Phi (- (1 / 5))))\<rparr>,
          Inr (100 * Phi (1 / 5) - 100 * exp (- (1 / 50)) / 2),
          Inr (100 * exp (- (1 / 50)) / 2 - 100 * Phi (- (1 / 5))))"
    by (rule calculate_prices_example)
  then show ?thesis
    by (simp add: sidebar_defaults_def BlackScholes_init_def)
qed

text \<open>
  Claim C6, as amended: under one state of the module-level variables, two instances
  that agree on the five contract parameters get the same outcome (the same exception, or
  the same returned call and put), whatever prices they had stored before; and the
  only effect on the instance is that \<open>call_price\<close> and \<open>put_price\<close> now hold the
  returned prices.
\<close>

theorem pricer_function_of_parameters:
  assumes "time_to_maturity a = time_to_maturity b" and "strike a = strike b"
    and "current_price a = current_price b" and "volatility a = volatility b"
    and "risk_free_rate a = risk_free_rate b"
  shows "map_sum id snd (calculate_prices g a) = map_sum id snd (calculate_prices g b)
     \<and> (\<forall>s c p. calculate_prices g a = Inr (s, c, p)
           \<longrightarrow> s = a\<lparr>call_price := Some c, put_price := Some p\<rparr>)"
  using assms
  by (auto simp: calculate_prices_def Let_def split: sum.splits)

theorem pricer_function_of_parameters_witness:
  "map_sum id snd (calculate_prices sidebar_defaults (BlackScholes_init 1 100 100 (1 / 5) (1 / 50)))
     = map_sum id snd (calculate_prices sidebar_defaults
         ((BlackScholes_init 1 100 100 (1 / 5) (1 / 50))\<lparr>call_price := Some (Inr 0)\<rparr>))"
  using pricer_function_of_parameters
    [of "BlackScholes_init 1 100 100 (1 / 5) (1 / 50)"
        "(BlackScholes_init 1 100 100 (1 / 5) (1 / 50))\<lparr>call_price := Some (Inr 0)\<rparr>"
        sidebar_defaults]
  by (simp add: BlackScholes_init_def)

section \<open>The surface\<close>

text \<open>With a strike other than zero the pricer does not raise.\<close>

lemma calculate_prices_Inr:
  "strike self \<noteq> 0 \<Longrightarrow>
     \<exists>c p. calculate_prices g self = Inr (self\<lparr>call_price := Some c, put_price := Some p\<rparr>, c, p)"
  by (simp add: calculate_prices_def py_truediv_def Let_def)

lemma flat_index_less: "i < m \<Longrightarrow> j < n \<Longrightarrow> i * n + j < m * (n::nat)"
proof -
  assume a: "i < m" "j < n"
  have "i * n + j < i * n + n" using a by simp
  also have "\<dots> = Suc i * n" by simp
  also have "\<dots> \<le> m * n" using a by (intro mult_le_mono1) simp
  finally show ?thesis .
qed

text \<open>One step of the inner loop writes the cell \<open>(i, j)\<close> of both matrices.\<close>

lemma spot_loop_step:
  assumes "strike_arg \<noteq> 0" "i < nrows cp" "j < ncols cp" "i < nrows pp" "j < ncols pp"
  shows "spot_loop g bs strike_arg i vol j (spot # spots) (cp, pp) =
           spot_loop g bs strike_arg i vol (Suc j) spots
             (cp\<lparr>cells := (cells cp)[i * ncols cp + j := fst (cell_quotes g bs strike_arg vol spot)]\<rparr>,
              pp\<lparr>cells := (cells pp)[i * ncols pp + j := snd (cell_quotes g bs strike_arg vol spot)]\<rparr>)"
proof -
  let ?x = "BlackScholes_init (time_to_maturity bs) strike_arg spot vol (risk_free_rate bs)"
  have "strike ?x \<noteq> 0" using assms(1) by (simp add: BlackScholes_init_def)
  from calculate_prices_Inr [OF this, of g] obtain c p where
    r: "calculate_prices g ?x = Inr (?x\<lparr>call_price := Some c, put_price := Some p\<rparr>, c, p)"
    by blast
  show ?thesis
    using assms(2-5) by (simp add: r nd_set_def cell_quotes_def)
qed

text \<open>
  The inner loop from column \<open>j\<close> on: it returns, keeps the shapes, leaves every cell
  outside the columns \<open>j\<close> and beyond of row \<open>i\<close> as it was, and fills those.
\<close>

lemma spot_loop_cells:
  assumes "strike_arg \<noteq> 0" "i < nrows cp" "nrows pp = nrows cp" "ncols pp = ncols cp"
    "j + length spots = ncols cp" "length (cells cp) = nrows cp * ncols cp"
    "length (cells pp) = nrows cp * ncols cp"
  shows "\<exists>cp' pp'. spot_loop g bs strike_arg i vol j spots (cp, pp) = Inr (cp', pp')
     \<and> nrows cp' = nrows cp \<and> ncols cp' = ncols cp \<and> nrows pp' = nrows cp \<and> ncols pp' = ncols cp
     \<and> length (cells cp') = nrows cp * ncols cp \<and> length (cells pp') = nrows cp * ncols cp
     \<and> (\<forall>k. k < i * ncols cp + j \<or> i * ncols cp + ncols cp \<le> k
            \<longrightarrow> cells cp' ! k = cells cp ! k \<and> cells pp' ! k = cells pp ! k)
     \<and> (\<forall>j' < length spots.
            cells cp' ! (i * ncols cp + j + j') = fst (cell_quotes g bs strike_arg vol (spots ! j'))
          \<and> cells pp' ! (i * ncols cp + j + j') = snd (cell_quotes g bs strike_arg vol (spots ! j')))"
  using assms
proof (induction spots arbitrary: j cp pp)
  case Nil
  then show ?case by simp
next
  case (Cons spot spots)
  let ?n = "ncols cp"
  let ?cp1 = "cp\<lparr>cells := (cells cp)[i * ncols cp + j := fst (cell_quotes g bs strike_arg vol spot)]\<rparr>"
  let ?pp1 = "pp\<lparr>cells := (cells pp)[i * ncols pp + j := snd (cell_quotes g bs strike_arg vol spot)]\<rparr>"
  have j: "j < ?n" using Cons.prems(5) by simp
  have step: "spot_loop g bs strike_arg i vol j (spot # spots) (cp, pp) =
      spot_loop g bs strike_arg i vol (Suc j) spots (?cp1, ?pp1)"
    using Cons.prems j by (intro spot_loop_step) simp_all
  have idx: "i * ?n + j < nrows cp * ?n"
    using flat_index_less [OF Cons.prems(2) j] .
  have "\<exists>cp' pp'. spot_loop g bs strike_arg i vol (Suc j) spots (?cp1, ?pp1) = Inr (cp', pp')
     \<and> nrows cp' = nrows ?cp1 \<and> ncols cp' = ncols ?cp1 \<and> nrows pp' = nrows ?cp1 \<and> ncols pp' = ncols ?cp1
     \<and> length (cells cp') = nrows ?cp1 * ncols ?cp1 \<and> length (cells pp') = nrows ?cp1 * ncols ?cp1
     \<and> (\<forall>k. k < i * ncols ?cp1 + Suc j \<or> i * ncols ?cp1 + ncols ?cp1 \<le> k
            \<longrightarrow> cells cp' ! k = cells ?cp1 ! k \<and> cells pp' ! k = cells ?pp1 ! k)
     \<and> (\<forall>j' < length spots.
            cells cp' ! (i * ncols ?cp1 + Suc j + j') = fst (cell_quotes g bs strike_arg vol (spots ! j'))
          \<and> cells pp' ! (i * ncols ?cp1 + Suc j + j') = snd (cell_quotes g bs strike_arg vol (spots ! j')))"
    using Cons.prems by (intro Cons.IH) simp_all
  then obtain cp' pp' where
    r: "spot_loop g bs strike_arg i vol (Suc j) spots (?cp1, ?pp1) = Inr (cp', pp')"
    and sh: "nrows cp' = nrows cp" "ncols cp' = ?n" "nrows pp' = nrows cp" "ncols pp' = ?n"
      "length (cells cp') = nrows cp * ?n" "length (cells pp') = nrows cp * ?n"
    and frame: "\<And>k. k < i * ?n + Suc j \<or> i * ?n + ?n \<le> k
            \<Longrightarrow> cells cp' ! k = cells ?cp1 ! k \<and> cells pp' ! k = cells ?pp1 ! k"
    and filled: "\<And>j'. j' < length spots \<Longrightarrow>
            cells cp' ! (i * ?n + Suc j + j') = fst (cell_quotes g bs strike_arg vol (spots ! j'))
          \<and> cells pp' ! (i * ?n + Suc j + j') = snd (cell_quotes g bs strike_arg vol (spots ! j'))"
    by auto
  have frame': "\<forall>k. k < i * ?n + j \<or> i * ?n + ?n \<le> k
            \<longrightarrow> cells cp' ! k = cells cp ! k \<and> cells pp' ! k = cells pp ! k"
  proof (intro allI impI)
    fix k assume k: "k < i * ?n + j \<or> i * ?n + ?n \<le> k"
    then have "k < i * ?n + Suc j \<or> i * ?n + ?n \<le> k" by auto
    from frame [OF this] have "cells cp' ! k = cells ?cp1 ! k \<and> cells pp' ! k = cells ?pp1 ! k" .
    moreover have "k \<noteq> i * ?n + j" using k j by auto
    ultimately show "cells cp' ! k = cells cp ! k \<and> cells pp' ! k = cells pp ! k"
      using Cons.prems(4) by simp
  qed
  have filled': "\<forall>j' < length (spot # spots).
            cells cp' ! (i * ?n + j + j') = fst (cell_quotes g bs strike_arg vol ((spot # spots) ! j'))
          \<and> cells pp' ! (i * ?n + j + j') = snd (cell_quotes g bs strike_arg vol ((spot # spots) ! j'))"
  proof (intro allI impI)
    fix j' assume j': "j' < length (spot # spots)"
    show "cells cp' ! (i * ?n + j + j') = fst (cell_quotes g bs strike_arg vol ((spot # spots) ! j'))
          \<and> cells pp' ! (i * ?n + j + j') = snd (cell_quotes g bs strike_arg vol ((spot # spots) ! j'))"
    proof (cases j')
      case 0
      have "cells cp' ! (i * ?n + j) = cells ?cp1 ! (i * ?n + j)
          \<and> cells pp' ! (i * ?n + j) = cells ?pp1 ! (i * ?n + j)"
        by (rule frame) simp
      then show ?thesis
        using 0 idx Cons.prems(4,6,7) by simp
    next
      case (Suc j'')
      then have "j'' < length spots" using j' by simp
      from filled [OF this] show ?thesis using Suc by simp
    qed
  qed
  show ?case
    unfolding step using r sh frame' filled' by simp
qed

text \<open>The outer loop from row \<open>i\<close> on: rows before \<open>i\<close> stay, the rows from \<open>i\<close> on are filled.\<close>

lemma vol_loop_cells:
  assumes "strike_arg \<noteq> 0" "nrows pp = nrows cp" "ncols pp = ncols cp"
    "length spots = ncols cp" "i + length vols = nrows cp"
    "length (cells cp) = nrows cp * ncols cp" "length (cells pp) = nrows cp * ncols cp"
  shows "\<exists>cp' pp'. vol_loop g bs strike_arg spots i vols (cp, pp) = Inr (cp', pp')
     \<and> nrows cp' = nrows cp \<and> ncols cp' = ncols cp \<and> nrows pp' = nrows cp \<and> ncols pp' = ncols cp
     \<and> (\<forall>k < i * ncols cp. cells cp' ! k = cells cp ! k \<and> cells pp' ! k = cells pp ! k)
     \<and> (\<forall>i' < length vols. \<forall>j < length spots.
            cells cp' ! ((i + i') * ncols cp + j) = fst (cell_quotes g bs strike_arg (vols ! i') (spots ! j))
          \<and> cells pp' ! ((i + i') * ncols cp + j) = snd (cell_quotes g bs strike_arg (vols ! i') (spots ! j)))"
  using assms
proof (induction vols arbitrary: i cp pp)
  case Nil
  then show ?case by simp
next
  case (Cons vol vols)
  let ?n = "ncols cp"
  have i: "i < nrows cp" using Cons.prems(5) by simp
  from spot_loop_cells [of strike_arg i cp pp 0 spots g bs vol] Cons.prems i
  obtain cp1 pp1 where
    r1: "spot_loop g bs strike_arg i vol 0 spots (cp, pp) = Inr (cp1, pp1)"
    and sh1: "nrows cp1 = nrows cp" "ncols cp1 = ?n" "nrows pp1 = nrows cp" "ncols pp1 = ?n"
      "length (cells cp1) = nrows cp * ?n" "length (cells pp1) = nrows cp * ?n"
    and frame1: "\<And>k. k < i * ?n \<or> i * ?n + ?n \<le> k
            \<Longrightarrow> cells cp1 ! k = cells cp ! k \<and> cells pp1 ! k = cells pp ! k"
    and filled1: "\<And>j. j < length spots \<Longrightarrow>
            cells cp1 ! (i * ?n + j) = fst (cell_quotes g bs strike_arg vol (spots ! j))
          \<and> cells pp1 ! (i * ?n + j) = snd (cell_quotes g bs strike_arg vol (spots ! j))"
    by auto
  have "\<exists>cp' pp'. vol_loop g bs strike_arg spots (Suc i) vols (cp1, pp1) = Inr (cp', pp')
     \<and> nrows cp' = nrows cp1 \<and> ncols cp' = ncols cp1 \<and> nrows pp' = nrows cp1 \<and> ncols pp' = ncols cp1
     \<and> (\<forall>k < Suc i * ncols cp1. cells cp' ! k = cells cp1 ! k \<and> cells pp' ! k = cells pp1 ! k)
     \<and> (\<forall>i' < length vols. \<forall>j < length spots.
            cells cp' ! ((Suc i + i') * ncols cp1 + j) = fst (cell_quotes g bs strike_arg (vols ! i') (spots ! j))
          \<and> cells pp' ! ((Suc i + i') * ncols cp1 + j) = snd (cell_quotes g bs strike_arg (vols ! i') (spots ! j)))"
    using Cons.prems sh1 by (intro Cons.IH) simp_all
  then obtain cp' pp' where
    r: "vol_loop g bs strike_arg spots (Suc i) vols (cp1, pp1) = Inr (cp', pp')"
    and sh: "nrows cp' = nrows cp" "ncols cp' = ?n" "nrows pp' = nrows cp" "ncols pp' = ?n"
    and frame: "\<And>k. k < Suc i * ?n \<Longrightarrow> cells cp' ! k = cells cp1 ! k \<and> cells pp' ! k = cells pp1 ! k"
    and filled: "\<And>i' j. i' < length vols \<Longrightarrow> j < length spots \<Longrightarrow>
            cells cp' ! ((Suc i + i') * ?n + j) = fst (cell_quotes g bs strike_arg (vols ! i') (spots ! j))
          \<and> cells pp' ! ((Suc i + i') * ?n + j) = snd (cell_quotes g bs strike_arg (vols ! i') (spots ! j))"
    using sh1 by auto
  have frame': "\<forall>k < i * ?n. cells cp' ! k = cells cp ! k \<and> cells pp' ! k = cells pp ! k"
  proof (intro allI impI)
    fix k assume k: "k < i * ?n"
    then have "k < Suc i * ?n" by simp
    from frame [OF this] frame1 [of k] k
    show "cells cp' ! k = cells cp ! k \<and> cells pp' ! k = cells pp ! k" by simp
  qed
  have filled': "\<forall>i' < length (vol # vols). \<forall>j < length spots.
            cells cp' ! ((i + i') * ?n + j) = fst (cell_quotes g bs strike_arg ((vol # vols) ! i') (spots ! j))
          \<and> cells pp' ! ((i + i') * ?n + j) = snd (cell_quotes g bs strike_arg ((vol # vols) ! i') (spots ! j))"
  proof (intro allI impI)
    fix i' j assume i': "i' < length (vol # vols)" and j: "j < length spots"
    show "cells cp' ! ((i + i') * ?n + j) = fst (cell_quotes g bs strike_arg ((vol # vols) ! i') (spots ! j))
          \<and> cells pp' ! ((i + i') * ?n + j) = snd (cell_quotes g bs strike_arg ((vol # vols) ! i') (spots ! j))"
    proof (cases i')
      case 0
      have "i * ?n + j < Suc i * ?n" using j Cons.prems(4) by simp
      from frame [OF this] filled1 [OF j] show ?thesis using 0 by simp
    next
      case (Suc i'')
      then have "i'' < length vols" using i' by simp
      from filled [OF this j] show ?thesis using Suc by simp
    qed
  qed
  show ?case
    using r1 r sh frame' filled' by simp
qed

lemma vol_loop_no_spots: "vol_loop g bs strike_arg [] i vols (cp, pp) = Inr (cp, pp)"
  by (induction vols arbitrary: i) simp_all

lemma cell_quotes_pricer:
  assumes "strike_arg \<noteq> 0"
  shows "\<exists>s c p. calculate_prices g
             (BlackScholes_init (time_to_maturity bs) strike_arg spot vol (risk_free_rate bs))
           = Inr (s, c, p)
      \<and> fst (cell_quotes g bs strike_arg vol spot) = fl_sub c (Inr (market_call_quote g))
      \<and> snd (cell_quotes g bs strike_arg vol spot) = fl_sub p (Inr (market_put_quote g))"
proof -
  let ?x = "BlackScholes_init (time_to_maturity bs) strike_arg spot vol (risk_free_rate bs)"
  have "strike ?x \<noteq> 0" using assms by (simp add: BlackScholes_init_def)
  from calculate_prices_Inr [OF this, of g] obtain c p where
    "calculate_prices g ?x = Inr (?x\<lparr>call_price := Some c, put_price := Some p\<rparr>, c, p)"
    by blast
  then show ?thesis by (simp add: cell_quotes_def)
qed

lemma plot_heatmap_cells:
  assumes "strike_arg \<noteq> 0"
  shows "\<exists>cp pp. plot_heatmap g bs spot_range vol_range strike_arg = Inr (cp, pp)
     \<and> nrows cp = length vol_range \<and> ncols cp = length spot_range
     \<and> nrows pp = length vol_range \<and> ncols pp = length spot_range
     \<and> (\<forall>i < length vol_range. \<forall>j < length spot_range.
            nd_get cp i j = fst (cell_quotes g bs strike_arg (vol_range ! i) (spot_range ! j))
          \<and> nd_get pp i j = snd (cell_quotes g bs strike_arg (vol_range ! i) (spot_range ! j)))"
proof -
  let ?z = "np_zeros (length vol_range) (length spot_range)"
  from vol_loop_cells [of strike_arg ?z ?z spot_range 0 vol_range g bs] assms
  obtain cp pp where
    r: "vol_loop g bs strike_arg spot_range 0 vol_range (?z, ?z) = Inr (cp, pp)"
    and sh: "nrows cp = length vol_range" "ncols cp = length spot_range"
      "nrows pp = length vol_range" "ncols pp = length spot_range"
    and filled: "\<And>i j. i < length vol_range \<Longrightarrow> j < length spot_range \<Longrightarrow>
            cells cp ! (i * length spot_range + j) = fst (cell_quotes g bs strike_arg (vol_range ! i) (spot_range ! j))
          \<and> cells pp ! (i * length spot_range + j) = snd (cell_quotes g bs strike_arg (vol_range ! i) (spot_range ! j))"
    by (auto simp: np_zeros_def)
  show ?thesis
    using r sh filled by (simp add: plot_heatmap_def nd_get_def)
qed

text \<open>
  Claim C3: for every pair of axes and every \<open>i < len(vol_range)\<close>, \<open>j < len(spot_range)\<close>,
  the surface generator returns, the pricer returns on the instance with spot
  \<open>spot_range[j]\<close>, volatility \<open>vol_range[i]\<close>, the generator's strike, and time and rate of
  the base contract, and cell \<open>(i, j)\<close> of the call matrix is that call price less the
  market call quote, cell \<open>(i, j)\<close> of the put matrix that put price less the market put
  quote. The strike is other than zero, as a valid contract's is.
\<close>

theorem surface_cells_are_pricer_minus_quote:
  assumes "strike_arg \<noteq> 0" and "i < length vol_range" and "j < length spot_range"
  shows "\<exists>cp pp s c p.
       plot_heatmap g bs_model spot_range vol_range strike_arg = Inr (cp, pp)
     \<and> calculate_prices g
         (BlackScholes_init (time_to_maturity bs_model) strike_arg (spot_range ! j)
            (vol_range ! i) (risk_free_rate bs_model)) = Inr (s, c, p)
     \<and> nd_get cp i j = fl_sub c (Inr (market_call_quote g))
     \<and> nd_get pp i j = fl_sub p (Inr (market_put_quote g))"
proof -
  from plot_heatmap_cells [OF assms(1), of g bs_model spot_range vol_range] obtain cp pp where
    r: "plot_heatmap g bs_model spot_range vol_range strike_arg = Inr (cp, pp)"
    and cellv: "nd_get cp i j = fst (cell_quotes g bs_model strike_arg (vol_range ! i) (spot_range ! j))"
      "nd_get pp i j = snd (cell_quotes g bs_model strike_arg (vol_range ! i) (spot_range ! j))"
    using assms(2,3) by auto
  from cell_quotes_pricer [OF assms(1), of g bs_model "spot_range ! j" "vol_range ! i"]
  obtain s c p where
    "calculate_prices g
         (BlackScholes_init (time_to_maturity bs_model) strike_arg (spot_range ! j)
            (vol_range ! i) (risk_free_rate bs_model)) = Inr (s, c, p)"
    "fst (cell_quotes g bs_model strike_arg (vol_range ! i) (spot_range ! j)) = fl_sub c (Inr (market_call_quote g))"
    "snd (cell_quotes g bs_model strike_arg (vol_range ! i) (spot_range ! j)) = fl_sub p (Inr (market_put_quote g))"
    by blast
  with r cellv show ?thesis by auto
qed

theorem surface_cells_witness:
  "\<exists>cp pp s c p.
       plot_heatmap sidebar_defaults (BlackScholes_init 1 100 100 (1 / 5) (1 / 50))
         [100] [1 / 5] 100 = Inr (cp, pp)
     \<and> calculate_prices sidebar_defaults
         (BlackScholes_init 1 100 100 (1 / 5) (1 / 50)) = Inr (s, c, p)
     \<and> nd_get cp 0 0 = fl_sub c (Inr (141 / 10))
     \<and> nd_get pp 0 0 = fl_sub p (Inr (46 / 5))"
  using surface_cells_are_pricer_minus_quote
    [of 100 0 "[1 / 5]" 0 "[100]" sidebar_defaults "BlackScholes_init 1 100 100 (1 / 5) (1 / 50)"]
  by (simp add: BlackScholes_init_def sidebar_defaults_def)

text \<open>
  Claim C7: the two matrices have the shape \<open>(len(vol_range), len(spot_range))\<close>; when an
  axis is empty the generator returns whatever the strike, with no row or no column.
\<close>

theorem surface_shape:
  assumes "strike_arg \<noteq> 0 \<or> spot_range = [] \<or> vol_range = []"
  shows "\<exists>cp pp. plot_heatmap g bs_model spot_range vol_range strike_arg = Inr (cp, pp)
     \<and> nd_shape cp = (length vol_range, length spot_range)
     \<and> nd_shape pp = (length vol_range, length spot_range)"
proof (cases "strike_arg \<noteq> 0")
  case True
  from plot_heatmap_cells [OF True, of g bs_model spot_range vol_range]
  show ?thesis by (auto simp: nd_shape_def)
next
  case False
  with assms have "spot_range = [] \<or> vol_range = []" by simp
  then show ?thesis
  proof
    assume "spot_range = []"
    then show ?thesis
      by (simp add: plot_heatmap_def vol_loop_no_spots nd_shape_def np_zeros_def)
  next
    assume "vol_range = []"
    then show ?thesis
      by (simp add: plot_heatmap_def nd_shape_def np_zeros_def)
  qed
qed

theorem surface_shape_witness:
  "\<exists>cp pp. plot_heatmap sidebar_defaults (BlackScholes_init 1 100 100 (1 / 5) (1 / 50))
              [] [1 / 5, 3 / 10] 0 = Inr (cp, pp)
     \<and> nd_shape cp = (2, 0) \<and> nd_shape pp = (2, 0)"
  using surface_shape [of 0 "[]" "[1 / 5, 3 / 10]" sidebar_defaults
      "BlackScholes_init 1 100 100 (1 / 5) (1 / 50)"]
  by (simp add: eval_nat_numeral)

section \<open>The equity path\<close>

lemma py_max_zero: "py_max a 0 = max a 0"
  by (simp add: py_max_def max_def)

lemma length_cumsum_from: "length (cumsum_from acc xs) = length xs"
  by (induction xs arbitrary: acc) simp_all

lemma cumsum_from_nth:
  "k < length xs \<Longrightarrow> cumsum_from acc xs ! k = acc + sum_list (take (Suc k) xs)"
proof (induction xs arbitrary: acc k)
  case Nil
  then show ?case by simp
next
  case (Cons x xs)
  show ?case
  proof (cases k)
    case 0
    then show ?thesis by simp
  next
    case (Suc k')
    then have "k' < length xs" using Cons.prems by simp
    from Cons.IH [OF this, of "acc + x"] show ?thesis using Suc by simp
  qed
qed

lemma np_cumsum_nth: "k < length xs \<Longrightarrow> np_cumsum xs ! k = sum_list (take (Suc k) xs)"
  by (simp add: np_cumsum_def cumsum_from_nth)

lemma np_cumsum_last: "xs \<noteq> [] \<Longrightarrow> last (np_cumsum xs) = sum_list xs"
proof -
  assume ne: "xs \<noteq> []"
  then have l: "length xs - 1 < length xs" by simp
  have "np_cumsum xs \<noteq> []"
    using ne by (simp add: np_cumsum_def length_cumsum_from flip: length_greater_0_conv)
  then have "last (np_cumsum xs) = np_cumsum xs ! (length xs - 1)"
    by (simp add: last_conv_nth np_cumsum_def length_cumsum_from)
  also have "\<dots> = sum_list (take (Suc (length xs - 1)) xs)"
    by (rule np_cumsum_nth [OF l])
  also have "\<dots> = sum_list xs" using ne by simp
  finally show ?thesis .
qed

lemma np_cumsum_diff:
  "Suc k < length xs \<Longrightarrow> np_cumsum xs ! Suc k - np_cumsum xs ! k = xs ! Suc k"
proof -
  assume a: "Suc k < length xs"
  then have "take (Suc (Suc k)) xs = take (Suc k) xs @ [xs ! Suc k]"
    by (simp add: take_Suc_conv_app_nth)
  then show ?thesis
    using a by (simp add: np_cumsum_nth)
qed

lemma sum_list_take_map_upt:
  "k < n \<Longrightarrow> sum_list (take (Suc k) (map f [0..<n])) = (\<Sum>i\<le>k. f i)"
proof -
  assume "k < n"
  then have "take (Suc k) (map f [0..<n]) = map f [0..<Suc k]"
    by (simp add: take_map min_def)
  then show ?thesis
    by (simp add: sum_list_sum_nth atLeast0AtMost lessThan_Suc_atMost atLeast0LessThan
        del: upt_Suc)
qed

lemma sum_list_map_upt: "sum_list (map f [0..<n]) = (\<Sum>i<n. f i)"
  by (simp add: sum_list_sum_nth atLeast0LessThan)

lemma code_payoff_spec:
  "code_payoff g sampler bs_model k = spec_payoff g (terminal_price g sampler bs_model k)"
  by (simp add: code_payoff_def spec_payoff_def py_max_zero)

lemma trial_loop_payoffs:
  assumes "time_steps g \<noteq> 0"
    and "\<forall>k \<in> set ks. sampler k (global_current_price g) (global_risk_free_rate g)
            (global_volatility g) (1 / real_of_int (time_steps g)) (time_to_maturity bs) \<noteq> []"
  shows "trial_loop g sampler bs (market_call_quote g * real_of_int (amount_brought g)) ks pls
           = Inr (pls @ map (code_payoff g sampler bs) ks)"
  using assms
  by (induction ks arbitrary: pls) (simp_all add: Let_def code_payoff_def terminal_price_def)

lemma plot_account_equity_payoffs:
  assumes "strike bs_model \<noteq> 0" and "time_steps g \<noteq> 0 \<or> N \<le> 0"
    and "\<forall>k < nat N. sampler k (global_current_price g) (global_risk_free_rate g)
            (global_volatility g) (1 / real_of_int (time_steps g)) (time_to_maturity bs_model) \<noteq> []"
  shows "\<exists>c p. plot_account_equity g sampler bs_model N =
           Inr (bs_model\<lparr>call_price := Some c, put_price := Some p\<rparr>,
                np_cumsum (map (\<lambda>k. spec_payoff g (terminal_price g sampler bs_model k)) [0..<nat N]))"
proof -
  from calculate_prices_Inr [OF assms(1), of g] obtain c p where
    r: "calculate_prices g bs_model =
          Inr (bs_model\<lparr>call_price := Some c, put_price := Some p\<rparr>, c, p)"
    by blast
  let ?bs' = "bs_model\<lparr>call_price := Some c, put_price := Some p\<rparr>"
  have t: "time_to_maturity ?bs' = time_to_maturity bs_model" by simp
  have loop: "trial_loop g sampler ?bs' (market_call_quote g * real_of_int (amount_brought g))
           [0..<nat N] [] = Inr (map (code_payoff g sampler ?bs') [0..<nat N])"
  proof (cases "N \<le> 0")
    case True
    then show ?thesis by simp
  next
    case False
    with assms(2) have "time_steps g \<noteq> 0" by simp
    from trial_loop_payoffs [OF this, of "[0..<nat N]" sampler ?bs' "[]"] assms(3)
    show ?thesis by simp
  qed
  have same: "code_payoff g sampler ?bs' = (\<lambda>k. spec_payoff g (terminal_price g sampler bs_model k))"
    by (rule ext) (simp add: code_payoff_spec terminal_price_def)
  show ?thesis
    by (intro exI [of _ c] exI [of _ p])
      (simp add: plot_account_equity_def r loop same Let_def)
qed

lemma spec_payoff_lower:
  "0 \<le> amount_brought g \<Longrightarrow>
     - (market_call_quote g * real_of_int (amount_brought g)) \<le> spec_payoff g x"
  by (simp add: spec_payoff_def)

text \<open>
  A run of two trials under the sidebar's starting values, with a sampler whose path in
  trial \<open>k\<close> ends at \<open>S + k\<close>: the payoffs are \<open>- 1410\<close> and \<open>- 1310\<close>.
\<close>

lemma example_run_hyps:
  "strike (BlackScholes_init 1 100 100 (1 / 5) (1 / 50)) \<noteq> 0"
  "1 \<le> time_steps sidebar_defaults"
  "0 < amount_brought sidebar_defaults"
  "0 < market_call_quote sidebar_defaults"
  "\<forall>k < nat 2. (\<lambda>k S mu sigma dt T. [S, S + real k]) k
       (global_current_price sidebar_defaults) (global_risk_free_rate sidebar_defaults)
       (global_volatility sidebar_defaults) (1 / real_of_int (time_steps sidebar_defaults))
       (time_to_maturity (BlackScholes_init 1 100 100 (1 / 5) (1 / 50))) \<noteq> []"
  by (simp_all add: BlackScholes_init_def sidebar_defaults_def)

lemma example_run_payoffs:
  "spec_payoff sidebar_defaults
     (terminal_price sidebar_defaults (\<lambda>k S mu sigma dt T. [S, S + real k])
        (BlackScholes_init 1 100 100 (1 / 5) (1 / 50)) 0) = - 1410"
  "spec_payoff sidebar_defaults
     (terminal_price sidebar_defaults (\<lambda>k S mu sigma dt T. [S, S + real k])
        (BlackScholes_init 1 100 100 (1 / 5) (1 / 50)) (Suc 0)) = - 1310"
  by (simp_all add: spec_payoff_def terminal_price_def sidebar_defaults_def)

text \<open>
  Claim C4: with \<open>time_steps\<close> at least one, the simulator returns a path of length
  \<open>num_iterations\<close> whose element \<open>k\<close> is the sum of the payoffs of trials \<open>0\<close> to \<open>k\<close>, each
  \<open>max(terminal_price - current_price, 0) * amount_brought - premium\<close>; its last element is
  the sum of all payoffs. The base contract's strike is other than zero (the pricer runs
  first, on line 174) and the sampler returns no empty path.
\<close>

theorem equity_path_is_cumulative_payoff:
  assumes "strike bs_model \<noteq> 0" and "1 \<le> time_steps g"
    and "\<forall>k < nat N. sampler k (global_current_price g) (global_risk_free_rate g)
            (global_volatility g) (1 / real_of_int (time_steps g)) (time_to_maturity bs_model) \<noteq> []"
  shows "\<exists>bs' equity. plot_account_equity g sampler bs_model N = Inr (bs', equity)
     \<and> length equity = nat N
     \<and> (\<forall>k < nat N. equity ! k = (\<Sum>i\<le>k. spec_payoff g (terminal_price g sampler bs_model i)))
     \<and> (0 < N \<longrightarrow> last equity = (\<Sum>i<nat N. spec_payoff g (terminal_price g sampler bs_model i)))"
proof -
  let ?f = "\<lambda>k. spec_payoff g (terminal_price g sampler bs_model k)"
  let ?pls = "map ?f [0..<nat N]"
  have ts: "time_steps g \<noteq> 0 \<or> N \<le> 0" using assms(2) by simp
  from plot_account_equity_payoffs
    [where g = g and sampler = sampler and bs_model = bs_model and N = N] assms(1) ts assms(3)
  obtain c p where
    r: "plot_account_equity g sampler bs_model N =
          Inr (bs_model\<lparr>call_price := Some c, put_price := Some p\<rparr>, np_cumsum ?pls)"
    by blast
  have len: "length (np_cumsum ?pls) = nat N"
    by (simp add: np_cumsum_def length_cumsum_from)
  have nth: "\<forall>k < nat N. np_cumsum ?pls ! k = (\<Sum>i\<le>k. ?f i)"
  proof (intro allI impI)
    fix k assume k: "k < nat N"
    then have "np_cumsum ?pls ! k = sum_list (take (Suc k) ?pls)"
      by (intro np_cumsum_nth) simp
    also have "\<dots> = (\<Sum>i\<le>k. ?f i)" by (rule sum_list_take_map_upt [OF k])
    finally show "np_cumsum ?pls ! k = (\<Sum>i\<le>k. ?f i)" .
  qed
  have lst: "0 < N \<longrightarrow> last (np_cumsum ?pls) = (\<Sum>i<nat N. ?f i)"
  proof
    assume "0 < N"
    then have "?pls \<noteq> []" by simp
    from np_cumsum_last [OF this] show "last (np_cumsum ?pls) = (\<Sum>i<nat N. ?f i)"
      by (simp only: sum_list_map_upt)
  qed
  show ?thesis using r len nth lst by blast
qed

theorem equity_path_witness:
  "\<exists>bs' equity.
      plot_account_equity sidebar_defaults (\<lambda>k S mu sigma dt T. [S, S + real k])
        (BlackScholes_init 1 100 100 (1 / 5) (1 / 50)) 2 = Inr (bs', equity)
    \<and> length equity = 2 \<and> equity ! 0 = - 1410 \<and> equity ! 1 = - 2720 \<and> last equity = - 2720"
proof -
  from equity_path_is_cumulative_payoff
    [where g = sidebar_defaults and sampler = "\<lambda>k S mu sigma dt T. [S, S + real k]"
       and bs_model = "BlackScholes_init 1 100 100 (1 / 5) (1 / 50)" and N = 2]
    example_run_hyps(1,2,5)
  obtain bs' equity where
    r: "plot_account_equity sidebar_defaults (\<lambda>k S mu sigma dt T. [S, S + real k])
          (BlackScholes_init 1 100 100 (1 / 5) (1 / 50)) 2 = Inr (bs', equity)"
    and len: "length equity = nat 2"
    and nth: "\<And>k. k < nat 2 \<Longrightarrow> equity ! k =
        (\<Sum>i\<le>k. spec_payoff sidebar_defaults
           (terminal_price sidebar_defaults (\<lambda>k S mu sigma dt T. [S, S + real k])
              (BlackScholes_init 1 100 100 (1 / 5) (1 / 50)) i))"
    and lst: "last equity =
        (\<Sum>i<nat 2. spec_payoff sidebar_defaults
           (terminal_price sidebar_defaults (\<lambda>k S mu sigma dt T. [S, S + real k])
              (BlackScholes_init 1 100 100 (1 / 5) (1 / 50)) i))"
    by auto
  have e0: "equity ! 0 = - 1410"
    using nth [of 0] by (simp add: example_run_payoffs)
  have e1: "equity ! 1 = - 2720"
    using nth [of 1] by (simp add: example_run_payoffs)
  have l: "last equity = - 2720"
    unfolding lst by (simp add: eval_nat_numeral example_run_payoffs)
  show ?thesis using r len e0 e1 l by simp
qed

text \<open>
  Claim C8: with no trial the equity path is empty and nothing is raised, for a base
  contract whose strike is other than zero.
\<close>

theorem no_trials_empty_path:
  assumes "strike bs_model \<noteq> 0"
  shows "\<exists>bs'. plot_account_equity g sampler bs_model 0 = Inr (bs', [])"
proof -
  have "\<exists>c p. plot_account_equity g sampler bs_model 0 =
           Inr (bs_model\<lparr>call_price := Some c, put_price := Some p\<rparr>,
                np_cumsum (map (\<lambda>k. spec_payoff g (terminal_price g sampler bs_model k)) [0..<nat 0]))"
    using plot_account_equity_payoffs
      [where g = g and sampler = sampler and bs_model = bs_model and N = 0] assms
    by simp
  then show ?thesis by (auto simp: np_cumsum_def)
qed

theorem no_trials_witness:
  "\<exists>bs'. plot_account_equity sidebar_defaults (\<lambda>k S mu sigma dt T. [S, S + real k])
           (BlackScholes_init 1 100 100 (1 / 5) (1 / 50)) 0 = Inr (bs', [])"
  using no_trials_empty_path
    [where g = sidebar_defaults and sampler = "\<lambda>k S mu sigma dt T. [S, S + real k]"
       and bs_model = "BlackScholes_init 1 100 100 (1 / 5) (1 / 50)"]
    example_run_hyps(1)
  by simp

text \<open>
  Claim C10: with a positive position size and a positive market call quote, every
  payoff is at least \<open>- premium\<close>, and so are the first element of the equity path and
  every difference of two successive elements.
\<close>

theorem equity_steps_bounded_below:
  assumes "strike bs_model \<noteq> 0" and "1 \<le> time_steps g"
    and "\<forall>k < nat N. sampler k (global_current_price g) (global_risk_free_rate g)
            (global_volatility g) (1 / real_of_int (time_steps g)) (time_to_maturity bs_model) \<noteq> []"
    and "0 < amount_brought g" and "0 < market_call_quote g"
  shows "\<exists>bs' equity. plot_account_equity g sampler bs_model N = Inr (bs', equity)
     \<and> (\<forall>k < nat N. - (market_call_quote g * real_of_int (amount_brought g))
                       \<le> spec_payoff g (terminal_price g sampler bs_model k))
     \<and> (0 < N \<longrightarrow> - (market_call_quote g * real_of_int (amount_brought g)) \<le> equity ! 0)
     \<and> (\<forall>k. Suc k < nat N \<longrightarrow>
            - (market_call_quote g * real_of_int (amount_brought g)) \<le> equity ! Suc k - equity ! k)"
proof -
  let ?f = "\<lambda>k. spec_payoff g (terminal_price g sampler bs_model k)"
  let ?pls = "map ?f [0..<nat N]"
  let ?m = "- (market_call_quote g * real_of_int (amount_brought g))"
  have ts: "time_steps g \<noteq> 0 \<or> N \<le> 0" using assms(2) by simp
  from plot_account_equity_payoffs
    [where g = g and sampler = sampler and bs_model = bs_model and N = N] assms(1) ts assms(3)
  obtain c p where
    r: "plot_account_equity g sampler bs_model N =
          Inr (bs_model\<lparr>call_price := Some c, put_price := Some p\<rparr>, np_cumsum ?pls)"
    by blast
  have a: "0 \<le> amount_brought g" using assms(4) by simp
  have low: "\<And>x. ?m \<le> spec_payoff g x" by (rule spec_payoff_lower [OF a])
  have first: "0 < N \<longrightarrow> ?m \<le> np_cumsum ?pls ! 0"
  proof
    assume "0 < N"
    then have "0 < length ?pls" by simp
    from np_cumsum_nth [OF this] have "np_cumsum ?pls ! 0 = sum_list (take (Suc 0) ?pls)" .
    also have "\<dots> = (\<Sum>i\<le>0. ?f i)"
      using \<open>0 < N\<close> by (intro sum_list_take_map_upt) simp
    finally show "?m \<le> np_cumsum ?pls ! 0" using low by simp
  qed
  have diff: "\<forall>k. Suc k < nat N \<longrightarrow> ?m \<le> np_cumsum ?pls ! Suc k - np_cumsum ?pls ! k"
  proof (intro allI impI)
    fix k assume k: "Suc k < nat N"
    then have "Suc k < length ?pls" by simp
    from np_cumsum_diff [OF this] have "np_cumsum ?pls ! Suc k - np_cumsum ?pls ! k = ?pls ! Suc k" .
    also have "\<dots> = ?f (Suc k)" using k by simp
    finally show "?m \<le> np_cumsum ?pls ! Suc k - np_cumsum ?pls ! k" using low by simp
  qed
  show ?thesis using r low first diff by blast
qed

theorem equity_steps_witness:
  "\<exists>bs' equity.
      plot_account_equity sidebar_defaults (\<lambda>k S mu sigma dt T. [S, S + real k])
        (BlackScholes_init 1 100 100 (1 / 5) (1 / 50)) 2 = Inr (bs', equity)
    \<and> - 1410 \<le> equity ! 0 \<and> - 1410 \<le> equity ! 1 - equity ! 0"
proof -
  from equity_steps_bounded_below
    [where g = sidebar_defaults and sampler = "\<lambda>k S mu sigma dt T. [S, S + real k]"
       and bs_model = "BlackScholes_init 1 100 100 (1 / 5) (1 / 50)" and N = 2]
    example_run_hyps
  obtain bs' equity where
    r: "plot_account_equity sidebar_defaults (\<lambda>k S mu sigma dt T. [S, S + real k])
          (BlackScholes_init 1 100 100 (1 / 5) (1 / 50)) 2 = Inr (bs', equity)"
    and first: "- (market_call_quote sidebar_defaults * real_of_int (amount_brought sidebar_defaults))
                  \<le> equity ! 0"
    and diff: "\<And>k. Suc k < nat 2 \<Longrightarrow>
        - (market_call_quote sidebar_defaults * real_of_int (amount_brought sidebar_defaults))
          \<le> equity ! Suc k - equity ! k"
    by auto
  have p: "market_call_quote sidebar_defaults * real_of_int (amount_brought sidebar_defaults) = 1410"
    by (simp add: sidebar_defaults_def)
  have d: "- 1410 \<le> equity ! 1 - equity ! 0"
    using diff [of 0] by (simp add: p)
  show ?thesis using r first d by (simp add: p)
qed

end
